theory Spec2Isabelle
  imports Main
begin

section \<open>Errors\<close>

text \<open>
  The Python exceptions that \<open>dataset_ops.py\<close> raises or lets through, as values.
  \<open>StructureMismatch\<close> stands for the exception of \<open>nest.assert_same_structure\<close>,
  \<open>InvalidArgumentError\<close> for an error of the executing kernel.
\<close>

datatype error =
    TypeError
  | ValueError
  | StopIteration
  | KeyError
  | StructureMismatch
  | InvalidArgumentError

section \<open>Nested structures (\<open>tensorflow.python.data.util.nest\<close>)\<close>

text \<open>
  Modelled from the spec: the module \<open>nest\<close> is imported by \<open>dataset_ops.py\<close> and is
  not in src/. The spec describes a nested structure as a tuple or record of recursively
  nested structures with values at the leaves, \<open>flatten\<close> as the deterministic pre-order
  listing of the leaves and \<open>pack\<close> as its inverse against a structural template. A record
  is kept as the list of its fields in their canonical order.
\<close>

datatype 'a nest =
    Leaf 'a
  | Tup "'a nest list"
  | Rec "(string \<times> 'a nest) list"

fun flatten :: "'a nest \<Rightarrow> 'a list" where
  "flatten (Leaf x) = [x]"
| "flatten (Tup ts) = concat (map flatten ts)"
| "flatten (Rec fs) = concat (map (\<lambda>f. flatten (snd f)) fs)"

fun same_structure :: "'a nest \<Rightarrow> 'b nest \<Rightarrow> bool" where
  "same_structure (Leaf x) (Leaf y) = True"
| "same_structure (Tup ts) (Tup us) = list_all2 same_structure ts us"
| "same_structure (Rec fs) (Rec gs) =
     list_all2 (\<lambda>f g. fst f = fst g \<and> same_structure (snd f) (snd g)) fs gs"
| "same_structure _ _ = False"

definition assert_same_structure :: "'a nest \<Rightarrow> 'b nest \<Rightarrow> error + unit" where
  "assert_same_structure nest1 nest2 =
     (if same_structure nest1 nest2 then Inr () else Inl StructureMismatch)"

fun map_structure :: "('a \<Rightarrow> 'b) \<Rightarrow> 'a nest \<Rightarrow> 'b nest" where
  "map_structure f (Leaf x) = Leaf (f x)"
| "map_structure f (Tup ts) = Tup (map (map_structure f) ts)"
| "map_structure f (Rec fs) = Rec (map (\<lambda>p. (fst p, map_structure f (snd p))) fs)"

text \<open>
  Modelled from the spec: \<open>pack(template, leaves)\<close>, the inverse of \<open>flatten\<close>.
  \<open>pack_from\<close> consumes as many leaves of \<open>flat\<close> as the template has and returns the
  rest; \<open>pack_sequence_as\<close> raises \<open>ValueError\<close> unless the counts agree.
\<close>

fun pack_from :: "'a nest \<Rightarrow> 'b list \<Rightarrow> 'b nest \<times> 'b list"
  and pack_list :: "'a nest list \<Rightarrow> 'b list \<Rightarrow> 'b nest list \<times> 'b list"
  and pack_fields ::
    "(string \<times> 'a nest) list \<Rightarrow> 'b list \<Rightarrow> (string \<times> 'b nest) list \<times> 'b list"
where
  "pack_from (Leaf x) flat = (Leaf (hd flat), tl flat)"
| "pack_from (Tup ts) flat = (case pack_list ts flat of (us, rest) \<Rightarrow> (Tup us, rest))"
| "pack_from (Rec fs) flat = (case pack_fields fs flat of (gs, rest) \<Rightarrow> (Rec gs, rest))"
| "pack_list [] flat = ([], flat)"
| "pack_list (t # ts) flat =
     (case pack_from t flat of (u, rest) \<Rightarrow>
        (case pack_list ts rest of (us, rest') \<Rightarrow> (u # us, rest')))"
| "pack_fields [] flat = ([], flat)"
| "pack_fields (f # fs) flat =
     (case pack_from (snd f) flat of (u, rest) \<Rightarrow>
        (case pack_fields fs rest of (us, rest') \<Rightarrow> ((fst f, u) # us, rest')))"

definition pack_sequence_as :: "'a nest \<Rightarrow> 'b list \<Rightarrow> error + 'b nest" where
  "pack_sequence_as structure flat =
     (if length flat \<noteq> length (flatten structure) then Inl ValueError
      else Inr (fst (pack_from structure flat)))"

text \<open>
  Modelled from the spec: \<open>nest.flatten_up_to\<close>, the spec's \<open>flatten\<close> stopped at the
  leaves of a shallower structure. \<open>flatten_up_to shallow input\<close> lists the parts of \<open>input\<close> that sit at the leaves of
  \<open>shallow\<close>: where \<open>shallow\<close> is a sequence, \<open>input\<close> must be a sequence of the same kind
  (\<open>TypeError\<close>) and length (\<open>ValueError\<close>).
\<close>

fun flatten_up_to :: "'a nest \<Rightarrow> 'b nest \<Rightarrow> error + 'b nest list"
  and flatten_up_to_list :: "'a nest list \<Rightarrow> 'b nest list \<Rightarrow> error + 'b nest list"
  and flatten_up_to_fields ::
    "(string \<times> 'a nest) list \<Rightarrow> (string \<times> 'b nest) list \<Rightarrow> error + 'b nest list"
where
  "flatten_up_to (Leaf x) v = Inr [v]"
| "flatten_up_to (Tup ts) (Tup vs) =
     (if length ts \<noteq> length vs then Inl ValueError else flatten_up_to_list ts vs)"
| "flatten_up_to (Tup ts) (Leaf v) = Inl TypeError"
| "flatten_up_to (Tup ts) (Rec gs) = Inl TypeError"
| "flatten_up_to (Rec fs) (Rec gs) =
     (if length fs \<noteq> length gs then Inl ValueError
      else if map fst fs \<noteq> map fst gs then Inl ValueError
      else flatten_up_to_fields fs gs)"
| "flatten_up_to (Rec fs) (Leaf v) = Inl TypeError"
| "flatten_up_to (Rec fs) (Tup vs) = Inl TypeError"
| "flatten_up_to_list (t # ts) (v # vs) =
     (case flatten_up_to t v of
        Inl e \<Rightarrow> Inl e
      | Inr xs \<Rightarrow> (case flatten_up_to_list ts vs of Inl e \<Rightarrow> Inl e | Inr ys \<Rightarrow> Inr (xs @ ys)))"
| "flatten_up_to_list _ _ = Inr []"
| "flatten_up_to_fields (f # fs) (g # gs) =
     (case flatten_up_to (snd f) (snd g) of
        Inl e \<Rightarrow> Inl e
      | Inr xs \<Rightarrow> (case flatten_up_to_fields fs gs of Inl e \<Rightarrow> Inl e | Inr ys \<Rightarrow> Inr (xs @ ys)))"
| "flatten_up_to_fields _ _ = Inr []"

text \<open>
  Modelled from the spec: Zip yields the structural tuple of its inputs' elements. The
  part of a zipped element that each dataset contributed is itself a structure.
\<close>

fun join_nest :: "'a nest nest \<Rightarrow> 'a nest" where
  "join_nest (Leaf n) = n"
| "join_nest (Tup ts) = Tup (map join_nest ts)"
| "join_nest (Rec fs) = Rec (map (\<lambda>p. (fst p, join_nest (snd p))) fs)"

section \<open>Types and shapes (\<open>dtypes\<close>, \<open>tensor_shape\<close>)\<close>

text \<open>
  Modelled from the spec: \<open>dtypes\<close> and \<open>tensor_shape\<close> are imported and not in src/.
  A type tag is opaque with an equality. A shape is a sequence of dimensions, each a
  concrete non-negative integer or unknown (\<open>None\<close>); two shapes are compatible iff they
  have the same rank and each pair of dimensions is equal or has an unknown side. The
  source also builds \<open>TensorShape(None)\<close>, the unconstrained shape of unknown rank
  (\<open>None\<close> here), compatible with every shape.
\<close>

datatype dtype = DT_FLOAT | DT_DOUBLE | DT_INT32 | DT_INT64 | DT_STRING | DT_BOOL

type_synonym dimension = "nat option"

type_synonym tensor_shape = "dimension list option"

definition dim_compatible :: "dimension \<Rightarrow> dimension \<Rightarrow> bool" where
  "dim_compatible d1 d2 = (d1 = None \<or> d2 = None \<or> d1 = d2)"

fun is_compatible_with :: "tensor_shape \<Rightarrow> tensor_shape \<Rightarrow> bool" where
  "is_compatible_with (Some ds) (Some es) = list_all2 dim_compatible ds es"
| "is_compatible_with _ _ = True"

definition scalar :: tensor_shape where
  "scalar = Some []"

definition vector :: "dimension \<Rightarrow> tensor_shape" where
  "vector d = Some [d]"

fun concatenate :: "tensor_shape \<Rightarrow> tensor_shape \<Rightarrow> tensor_shape" where
  "concatenate (Some ds) (Some es) = Some (ds @ es)"
| "concatenate _ _ = None"





section \<open>Element schema of datasets and iterators\<close>

text \<open>
  What \<open>Iterator.make_initializer\<close>, \<open>ConcatenateDataset\<close> and \<open>BatchDataset\<close> read of a
  dataset: its properties \<open>output_types\<close> and \<open>output_shapes\<close> and the handle that
  \<open>make_dataset_resource()\<close> returns.
\<close>

record Dataset =
  output_types :: "dtype nest"
  output_shapes :: "tensor_shape nest"
  make_dataset_resource :: nat

record Iterator =
  iterator_resource :: nat
  iterator_output_types :: "dtype nest"
  iterator_output_shapes :: "tensor_shape nest"

text \<open>The operation built by \<open>gen_dataset_ops.make_iterator(dataset, iterator)\<close>.\<close>

datatype operation = Make_Iterator nat nat

text \<open>
  The two loops of \<open>make_initializer\<close> over \<open>zip(nest.flatten(...), nest.flatten(...))\<close>;
  \<open>zip\<close> stops at the shorter list.
\<close>

fun check_dtypes :: "dtype list \<Rightarrow> dtype list \<Rightarrow> error + unit" where
  "check_dtypes (iterator_dtype # its) (dataset_dtype # dts) =
     (if iterator_dtype \<noteq> dataset_dtype then Inl TypeError else check_dtypes its dts)"
| "check_dtypes _ _ = Inr ()"

fun check_shapes :: "tensor_shape list \<Rightarrow> tensor_shape list \<Rightarrow> error + unit" where
  "check_shapes (iterator_shape # iss) (dataset_shape # dss) =
     (if \<not> is_compatible_with iterator_shape dataset_shape then Inl TypeError
      else check_shapes iss dss)"
| "check_shapes _ _ = Inr ()"

text \<open>
  \<open>Iterator.make_initializer(self, dataset)\<close>. The method assigns to no attribute of
  \<open>self\<close>; the iterator is returned beside the operation to make that visible.
\<close>

definition make_initializer :: "Iterator \<Rightarrow> Dataset \<Rightarrow> error + (operation \<times> Iterator)" where
  "make_initializer self dataset =
     (case assert_same_structure (iterator_output_types self) (output_types dataset) of
        Inl e \<Rightarrow> Inl e
      | Inr _ \<Rightarrow>
     (case assert_same_structure (iterator_output_shapes self) (output_shapes dataset) of
        Inl e \<Rightarrow> Inl e
      | Inr _ \<Rightarrow>
     (case check_dtypes (flatten (iterator_output_types self))
                        (flatten (output_types dataset)) of
        Inl e \<Rightarrow> Inl e
      | Inr _ \<Rightarrow>
     (case check_shapes (flatten (iterator_output_shapes self))
                        (flatten (output_shapes dataset)) of
        Inl e \<Rightarrow> Inl e
      | Inr _ \<Rightarrow>
          Inr (Make_Iterator (make_dataset_resource dataset) (iterator_resource self),
               self)))))"

subsection \<open>\<open>ConcatenateDataset\<close>\<close>





subsection \<open>\<open>BatchDataset\<close>\<close>

record BatchDataset =
  batch_input_dataset :: Dataset
  batch_size :: int

definition batch :: "Dataset \<Rightarrow> int \<Rightarrow> BatchDataset" where
  "batch self n = \<lparr>batch_input_dataset = self, batch_size = n\<rparr>"

definition batch_output_shapes :: "BatchDataset \<Rightarrow> error + tensor_shape nest" where
  "batch_output_shapes self =
     pack_sequence_as (output_shapes (batch_input_dataset self))
       (map (\<lambda>s. concatenate (vector None) s)
          (flatten (output_shapes (batch_input_dataset self))))"

definition batch_output_types :: "BatchDataset \<Rightarrow> dtype nest" where
  "batch_output_types self = output_types (batch_input_dataset self)"

section \<open>The pipeline graph\<close>

text \<open>
  An argument that the source converts with \<open>ops.convert_to_tensor(..., dtype=int64)\<close>:
  a constant, whose value \<open>tensor_util.constant_value\<close> returns, or a tensor known only
  when the graph runs (a placeholder, read from the feeds).
\<close>

datatype scalar_tensor = Const int | Placeholder nat

fun constant_value :: "scalar_tensor \<Rightarrow> int option" where
  "constant_value (Const v) = Some v"
| "constant_value (Placeholder p) = None"

type_synonym feeds = "nat \<Rightarrow> int"

fun eval_tensor :: "feeds \<Rightarrow> scalar_tensor \<Rightarrow> int" where
  "eval_tensor env (Const v) = v"
| "eval_tensor env (Placeholder p) = env p"

text \<open>A component of an element when the graph runs.\<close>

datatype 'a val = Int64 int | Bool bool | Opaque 'a

text \<open>
  The nodes the claims are about. A user function is kept as what it computes on an
  element when the graph runs, under the feeds. \<open>TensorSliceDataset\<close> holds the slices,
  which are its elements.
\<close>

datatype 'a dataset =
    TensorSliceDataset "'a val nest list"
  | RangeDataset scalar_tensor scalar_tensor scalar_tensor
  | ZipDataset "'a dataset nest"
  | FilterDataset "'a dataset" "feeds \<Rightarrow> 'a val nest \<Rightarrow> error + 'a val nest"
  | MapDataset "'a dataset" "feeds \<Rightarrow> 'a val nest \<Rightarrow> error + 'a val nest"
  | ParallelMapDataset "'a dataset" "feeds \<Rightarrow> 'a val nest \<Rightarrow> error + 'a val nest"
      scalar_tensor
  | PrefetchDataset "'a dataset" scalar_tensor

subsection \<open>Constructing methods\<close>

definition build_tensor :: "int \<Rightarrow> scalar_tensor" where
  "build_tensor int64_value = Const int64_value"

text \<open>\<open>RangeDataset.__init__\<close>, that is \<open>_parse_args(*args)\<close>.\<close>

fun parse_args :: "scalar_tensor list \<Rightarrow> error + 'a dataset" where
  "parse_args [a0] = Inr (RangeDataset (build_tensor 0) a0 (build_tensor 1))"
| "parse_args [a0, a1] = Inr (RangeDataset a0 a1 (build_tensor 1))"
| "parse_args [a0, a1, a2] = Inr (RangeDataset a0 a1 a2)"
| "parse_args args = Inl ValueError"

definition Dataset_range :: "scalar_tensor list \<Rightarrow> error + 'a dataset" where
  "Dataset_range args = parse_args args"

definition Dataset_zip :: "'a dataset nest \<Rightarrow> 'a dataset" where
  "Dataset_zip datasets = ZipDataset datasets"

definition prefetch :: "'a dataset \<Rightarrow> scalar_tensor \<Rightarrow> 'a dataset" where
  "prefetch self buffer_size = PrefetchDataset self buffer_size"

definition Dataset_filter ::
  "'a dataset \<Rightarrow> (feeds \<Rightarrow> 'a val nest \<Rightarrow> error + 'a val nest) \<Rightarrow> 'a dataset" where
  "Dataset_filter self predicate = FilterDataset self predicate"

text \<open>\<open>Dataset.map(self, map_func, num_threads, output_buffer_size, num_parallel_calls)\<close>.\<close>

definition Dataset_map ::
  "'a dataset \<Rightarrow> (feeds \<Rightarrow> 'a val nest \<Rightarrow> error + 'a val nest) \<Rightarrow>
   scalar_tensor option \<Rightarrow> scalar_tensor option \<Rightarrow> scalar_tensor option \<Rightarrow> 'a dataset" where
  "Dataset_map self map_func num_threads output_buffer_size num_parallel_calls =
     (let ret =
        (case (num_threads, num_parallel_calls) of
           (None, None) \<Rightarrow> MapDataset self map_func
         | (None, Some n) \<Rightarrow> ParallelMapDataset self map_func n
         | (Some t, _) \<Rightarrow> ParallelMapDataset self map_func t)
      in (case output_buffer_size of
            None \<Rightarrow> ret
          | Some b \<Rightarrow> prefetch ret b))"

text \<open>\<open>np.iinfo(dtypes.int64.as_numpy_dtype).max\<close>.\<close>

definition max_value :: int where
  "max_value = 9223372036854775807"

definition enumerate_ds :: "'a dataset \<Rightarrow> int \<Rightarrow> error + 'a dataset" where
  "enumerate_ds self start =
     (case Dataset_range [Const start, Const max_value] of
        Inl e \<Rightarrow> Inl e
      | Inr r \<Rightarrow> Inr (Dataset_zip (Tup [Leaf r, Leaf self])))"

text \<open>
  The two functions that \<open>shard\<close> hands to \<open>filter\<close> and \<open>map\<close>. Both are called with the
  zipped element spread over two arguments. \<open>math_ops.mod\<close> is the floor modulus; a zero
  divisor is an error of the kernel.
\<close>

fun filter_fn :: "scalar_tensor \<Rightarrow> scalar_tensor \<Rightarrow> feeds \<Rightarrow> 'a val nest \<Rightarrow> error + 'a val nest"
where
  "filter_fn num_shards index env (Tup [Leaf (Int64 elem_index), e]) =
     (if eval_tensor env num_shards = 0 then Inl InvalidArgumentError
      else Inr (Leaf (Bool (elem_index mod eval_tensor env num_shards = eval_tensor env index))))"
| "filter_fn num_shards index env _ = Inl TypeError"

fun second_of_pair :: "feeds \<Rightarrow> 'a val nest \<Rightarrow> error + 'a val nest" where
  "second_of_pair env (Tup [u, elem]) = Inr elem"
| "second_of_pair env _ = Inl TypeError"

text \<open>\<open>Dataset.shard(self, num_shards, index)\<close>.\<close>

definition shard :: "'a dataset \<Rightarrow> scalar_tensor \<Rightarrow> scalar_tensor \<Rightarrow> error + 'a dataset" where
  "shard self num_shards index =
     (let num_shards_static = constant_value num_shards;
          index_static = constant_value index
      in if num_shards_static \<noteq> None \<and> the num_shards_static < 1 then Inl ValueError
         else if index_static \<noteq> None \<and> the index_static < 0 then Inl ValueError
         else if index_static \<noteq> None \<and> num_shards_static \<noteq> None \<and>
                 the index_static \<ge> the num_shards_static then Inl ValueError
         else (case enumerate_ds self 0 of
                 Inl e \<Rightarrow> Inl e
               | Inr en \<Rightarrow>
                   Inr (Dataset_map (Dataset_filter en (filter_fn num_shards index))
                          second_of_pair None None None)))"

subsection \<open>The elements a node yields\<close>

text \<open>
  Modelled from the spec: the kernels behind \<open>gen_dataset_ops\<close> are not in src/. Range
  yields \<open>start, start + step, ...\<close> up to but excluding \<open>stop\<close>, nothing when the sign of
  \<open>step\<close> does not lead from \<open>start\<close> to \<open>stop\<close>, and fails with InvalidArgument for step
  0; Zip yields as many elements as its shortest input, each packed like the structure of
  datasets; Map applies the function, Filter keeps the elements on which the predicate
  is true; Prefetch does not reorder, and a parallel Map yields in the order of the
  sequential one. Only finite sequences are represented.
\<close>

definition range_elems :: "int \<Rightarrow> int \<Rightarrow> int \<Rightarrow> int list" where
  "range_elems start stop step =
     (if 0 < step then
        map (\<lambda>k. start + int k * step) [0..<nat ((stop - start + step - 1) div step)]
      else if step < 0 then
        map (\<lambda>k. start + int k * step) [0..<nat ((start - stop - step - 1) div (- step))]
      else [])"

fun sequence_sum :: "('e + 'b) list \<Rightarrow> 'e + 'b list" where
  "sequence_sum [] = Inr []"
| "sequence_sum (x # xs) =
     (case x of
        Inl e \<Rightarrow> Inl e
      | Inr v \<Rightarrow> (case sequence_sum xs of Inl e \<Rightarrow> Inl e | Inr vs \<Rightarrow> Inr (v # vs)))"

fun min_length :: "'b list list \<Rightarrow> nat" where
  "min_length [] = 0"
| "min_length [c] = length c"
| "min_length (c # cs) = min (length c) (min_length cs)"

definition zip_rows :: "'b list list \<Rightarrow> 'b list list" where
  "zip_rows cols = map (\<lambda>i. map (\<lambda>c. c ! i) cols) [0..<min_length cols]"

fun filter_elems :: "('b \<Rightarrow> error + 'c val nest) \<Rightarrow> 'b list \<Rightarrow> error + 'b list" where
  "filter_elems p [] = Inr []"
| "filter_elems p (x # xs) =
     (case p x of
        Inl e \<Rightarrow> Inl e
      | Inr (Leaf (Bool b)) \<Rightarrow>
          (case filter_elems p xs of
             Inl e \<Rightarrow> Inl e
           | Inr ys \<Rightarrow> Inr (if b then x # ys else ys))
      | Inr _ \<Rightarrow> Inl TypeError)"

lemma size_list_mem: "x \<in> set xs \<Longrightarrow> f x \<le> size_list f xs"
  by (induction xs) auto

lemma size_set_nest: "z \<in> set_nest n \<Longrightarrow> size z < Suc (size_nest size n)"
proof (induction n)
  case (Leaf x)
  then show ?case by simp
next
  case (Tup ts)
  then obtain t where t: "t \<in> set ts" "z \<in> set_nest t" by auto
  from Tup.IH[OF t] have "size z < Suc (size_nest size t)" .
  moreover from size_list_mem[OF t(1), of "size_nest size"]
  have "size_nest size t \<le> size_list (size_nest size) ts" .
  ultimately show ?case by simp
next
  case (Rec fs)
  then obtain k t where t: "(k, t) \<in> set fs" "z \<in> set_nest t" by auto
  from Rec.IH[OF t(1) _ t(2)] have "size z < Suc (size_nest size t)" by simp
  moreover from size_list_mem[OF t(1), of "size_prod (\<lambda>x. 0) (size_nest size)"]
  have "size_nest size t \<le> size_list (size_prod (\<lambda>x. 0) (size_nest size)) fs" by simp
  ultimately show ?case by simp
qed

function elems :: "feeds \<Rightarrow> 'a dataset \<Rightarrow> error + 'a val nest list" where
  "elems env (TensorSliceDataset xs) = Inr xs"
| "elems env (RangeDataset start stop step) =
     (if eval_tensor env step = 0 then Inl InvalidArgumentError
      else Inr (map (\<lambda>i. Leaf (Int64 i))
                  (range_elems (eval_tensor env start) (eval_tensor env stop)
                     (eval_tensor env step))))"
| "elems env (ZipDataset datasets) =
     (case sequence_sum (flatten (map_nest (elems env) datasets)) of
        Inl e \<Rightarrow> Inl e
      | Inr cols \<Rightarrow>
          sequence_sum
            (map (\<lambda>row. case pack_sequence_as datasets row of
                          Inl e \<Rightarrow> Inl e
                        | Inr packed \<Rightarrow> Inr (join_nest packed))
               (zip_rows cols)))"
| "elems env (FilterDataset d predicate) =
     (case elems env d of Inl e \<Rightarrow> Inl e | Inr xs \<Rightarrow> filter_elems (predicate env) xs)"
| "elems env (MapDataset d map_func) =
     (case elems env d of Inl e \<Rightarrow> Inl e | Inr xs \<Rightarrow> sequence_sum (map (map_func env) xs))"
| "elems env (ParallelMapDataset d map_func n) =
     (case elems env d of Inl e \<Rightarrow> Inl e | Inr xs \<Rightarrow> sequence_sum (map (map_func env) xs))"
| "elems env (PrefetchDataset d buffer_size) = elems env d"
  by pat_completeness auto
termination
  by (relation "measure (\<lambda>(env, d). size d)") (auto simp: size_set_nest)

text \<open>
  The spec's words for Shard: enumerate the upstream with a 0-based position and keep the
  positions where \<open>position mod numShards = index\<close>.
\<close>

definition shard_spec :: "int \<Rightarrow> int \<Rightarrow> 'b list \<Rightarrow> 'b list" where
  "shard_spec numShards index xs =
     map snd (filter (\<lambda>(position, x). int position mod numShards = index)
                (List.enumerate 0 xs))"

section \<open>The generator multiplexer (\<open>Dataset._GeneratorState\<close>, \<open>Dataset.from_generator\<close>)\<close>

text \<open>
  The callable \<open>generator\<close>: \<open>iter(generator())\<close> is a fresh iterator in the state
  \<open>new_iterator\<close>, and \<open>next\<close> on an iterator in state \<open>s\<close> yields a value and moves it
  on, or raises \<open>StopIteration\<close> (\<open>None\<close>).
\<close>

record ('s, 'v) generator =
  new_iterator :: 's
  next_value :: "'s \<Rightarrow> ('v \<times> 's) option"

record 's GeneratorState =
  next_id :: int
  iterators :: "int \<rightharpoonup> 's"

definition GeneratorState_init :: "'s GeneratorState" where
  "GeneratorState_init = \<lparr>next_id = 0, iterators = Map.empty\<rparr>"

definition get_next_id :: "'s GeneratorState \<Rightarrow> int \<times> 's GeneratorState" where
  "get_next_id self = (next_id self, self\<lparr>next_id := next_id self + 1\<rparr>)"

text \<open>
  \<open>self._iterators\<close> is a \<open>collections.defaultdict\<close>: reading a key that is absent calls
  the factory \<open>lambda: iter(generator())\<close>, stores its result under the key and returns
  it.
\<close>

definition get_iterator ::
  "('s, 'v) generator \<Rightarrow> 's GeneratorState \<Rightarrow> int \<Rightarrow> 's \<times> 's GeneratorState" where
  "get_iterator g self iterator_id =
     (case iterators self iterator_id of
        Some it \<Rightarrow> (it, self)
      | None \<Rightarrow>
          (new_iterator g,
           self\<lparr>iterators := (iterators self)(iterator_id \<mapsto> new_iterator g)\<rparr>))"

text \<open>\<open>del self._iterators[iterator_id]\<close> raises \<open>KeyError\<close> for an absent key.\<close>

definition iterator_completed :: "'s GeneratorState \<Rightarrow> int \<Rightarrow> error + 's GeneratorState" where
  "iterator_completed self iterator_id =
     (case iterators self iterator_id of
        None \<Rightarrow> Inl KeyError
      | Some it \<Rightarrow> Inr (self\<lparr>iterators := (iterators self)(iterator_id := None)\<rparr>))"

text \<open>
  A numpy array as far as the checks read it. What \<open>from_generator\<close> closes over: the
  declared types and shapes, flattened, beside \<open>as_numpy_dtype\<close> of the absent \<open>dtypes\<close>
  and \<open>script_ops.FuncRegistry._convert\<close>, which are parameters here.
\<close>

record ('n, 'p) ndarray =
  array_dtype :: 'n
  array_shape :: "nat list"
  array_data :: 'p

record ('s, 'v, 'n, 'p) from_generator_closure =
  the_generator :: "('s, 'v nest) generator"
  declared_types :: "dtype nest"
  declared_shapes :: "tensor_shape nest"
  flattened_types :: "dtype list"
  flattened_shapes :: "tensor_shape list"
  as_numpy_dtype :: "dtype \<Rightarrow> 'n"
  convert :: "'v nest \<Rightarrow> ('n, 'p) ndarray"

text \<open>
  Modelled from the spec: \<open>tensor_shape.as_shape\<close>, on a numpy shape (every dimension
  concrete) and on a part of \<open>output_shapes\<close>; and \<open>nest.map_structure_up_to\<close>, which
  flattens up to the shallow structure, applies the function and packs the results.
\<close>

definition as_shape :: "nat list \<Rightarrow> tensor_shape" where
  "as_shape dims = Some (map Some dims)"

fun as_shape_nest :: "tensor_shape nest \<Rightarrow> error + tensor_shape" where
  "as_shape_nest (Leaf s) = Inr s"
| "as_shape_nest _ = Inl TypeError"

definition map_structure_up_to ::
  "'a nest \<Rightarrow> ('b nest \<Rightarrow> error + 'c) \<Rightarrow> 'b nest \<Rightarrow> error + 'c nest" where
  "map_structure_up_to shallow func input =
     (case flatten_up_to shallow input of
        Inl e \<Rightarrow> Inl e
      | Inr parts \<Rightarrow>
          (case sequence_sum (map func parts) of
             Inl e \<Rightarrow> Inl e
           | Inr results \<Rightarrow> pack_sequence_as shallow results))"

text \<open>
  The head of \<open>Dataset.from_generator\<close>, up to \<open>generator_state\<close>. A generator of the model
  is callable, so the \<open>callable\<close> test passes.
\<close>

definition from_generator ::
  "(dtype \<Rightarrow> 'n) \<Rightarrow> ('v nest \<Rightarrow> ('n, 'p) ndarray) \<Rightarrow> ('s, 'v nest) generator \<Rightarrow>
   dtype nest \<Rightarrow>
   tensor_shape nest option \<Rightarrow> error + ('s, 'v, 'n, 'p) from_generator_closure" where
  "from_generator np_of conv g output_types_arg output_shapes_arg =
     (case (case output_shapes_arg of
              None \<Rightarrow> Inr (map_structure (\<lambda>_. None) output_types_arg)
            | Some shapes \<Rightarrow> map_structure_up_to output_types_arg as_shape_nest shapes) of
        Inl e \<Rightarrow> Inl e
      | Inr shapes \<Rightarrow>
          Inr \<lparr>the_generator = g,
               declared_types = output_types_arg,
               declared_shapes = shapes,
               flattened_types = flatten output_types_arg,
               flattened_shapes = flatten shapes,
               as_numpy_dtype = np_of,
               convert = conv\<rparr>)"

text \<open>
  The loop of \<open>generator_py_func\<close> over
  \<open>zip(ret_arrays, flattened_types, flattened_shapes)\<close>.
\<close>

fun check_components ::
  "(dtype \<Rightarrow> 'n) \<Rightarrow> ('n, 'p) ndarray list \<Rightarrow> dtype list \<Rightarrow> tensor_shape list \<Rightarrow> error + unit"
where
  "check_components np_of (ret_array # rs) (expected_dtype # ts) (expected_shape # ss) =
     (if array_dtype ret_array \<noteq> np_of expected_dtype then Inl TypeError
      else if \<not> is_compatible_with expected_shape (as_shape (array_shape ret_array))
      then Inl ValueError
      else check_components np_of rs ts ss)"
| "check_components np_of _ _ _ = Inr ()"

text \<open>
  \<open>generator_py_func(iterator_id)\<close>. \<open>next\<close> advances the iterator object that the
  dictionary holds, so the new state of the iterator is stored under the id.
\<close>

definition generator_py_func ::
  "('s, 'v, 'n, 'p) from_generator_closure \<Rightarrow> 's GeneratorState \<Rightarrow> int \<Rightarrow>
   (error + ('n, 'p) ndarray list) \<times> 's GeneratorState" where
  "generator_py_func c generator_state iterator_id =
     (case get_iterator (the_generator c) generator_state iterator_id of
        (it, st1) \<Rightarrow>
     (case next_value (the_generator c) it of
        None \<Rightarrow>
          (case iterator_completed st1 iterator_id of
             Inl e \<Rightarrow> (Inl e, st1)
           | Inr st2 \<Rightarrow> (Inl StopIteration, st2))
      | Some (values, it') \<Rightarrow>
          (let st2 = st1\<lparr>iterators := (iterators st1)(iterator_id \<mapsto> it')\<rparr> in
           (case flatten_up_to (declared_types c) values of
              Inl e \<Rightarrow> (Inl e, st2)
            | Inr parts \<Rightarrow>
                (let ret_arrays = map (convert c) parts in
                 (case check_components (as_numpy_dtype c) ret_arrays
                         (flattened_types c) (flattened_shapes c) of
                    Inl e \<Rightarrow> (Inl e, st2)
                  | Inr _ \<Rightarrow> (Inr ret_arrays, st2)))))))"

text \<open>\<open>generator_map_fn\<close>: the arrays from the \<open>py_func\<close>, packed like \<open>output_types\<close>.\<close>

definition generator_map_fn ::
  "('s, 'v, 'n, 'p) from_generator_closure \<Rightarrow> 's GeneratorState \<Rightarrow> int \<Rightarrow>
   (error + ('n, 'p) ndarray nest) \<times> 's GeneratorState" where
  "generator_map_fn c generator_state iterator_id =
     (case generator_py_func c generator_state iterator_id of
        (Inl e, st) \<Rightarrow> (Inl e, st)
      | (Inr flat_values, st) \<Rightarrow> (pack_sequence_as (declared_types c) flat_values, st))"

section \<open>The predicate of a \<open>FilterDataset\<close>\<close>

text \<open>A tensor of the graph under construction: its type and its static shape.\<close>

record tensor =
  tensor_dtype :: dtype
  tensor_shape :: tensor_shape

text \<open>
  Modelled from the spec: \<open>Tensor.set_shape\<close> merges a shape into the tensor's own with
  the spec's \<open>merge_shape\<close>: per dimension equal: keep; one side unknown: the other;
  both known and unequal: fails with a shape mismatch (\<open>ValueError\<close>).
\<close>

fun merge_dims :: "dimension list \<Rightarrow> dimension list \<Rightarrow> error + dimension list" where
  "merge_dims [] [] = Inr []"
| "merge_dims (d # ds) (e # es) =
     (if d \<noteq> None \<and> e \<noteq> None \<and> d \<noteq> e then Inl ValueError
      else (case merge_dims ds es of
              Inl err \<Rightarrow> Inl err
            | Inr ms \<Rightarrow> Inr ((if d = None then e else d) # ms)))"
| "merge_dims _ _ = Inl ValueError"

fun merge_with :: "tensor_shape \<Rightarrow> tensor_shape \<Rightarrow> error + tensor_shape" where
  "merge_with None s = Inr s"
| "merge_with s None = Inr s"
| "merge_with (Some ds) (Some es) =
     (case merge_dims ds es of Inl e \<Rightarrow> Inl e | Inr ms \<Rightarrow> Inr (Some ms))"

fun set_shapes :: "tensor list \<Rightarrow> tensor_shape list \<Rightarrow> error + tensor list" where
  "set_shapes (arg # args) (shape # shapes) =
     (case merge_with (tensor_shape arg) shape of
        Inl e \<Rightarrow> Inl e
      | Inr m \<Rightarrow>
          (case set_shapes args shapes of
             Inl e \<Rightarrow> Inl e
           | Inr rest \<Rightarrow> Inr (arg\<lparr>tensor_shape := m\<rparr> # rest)))"
| "set_shapes args [] = Inr args"
| "set_shapes [] shapes = Inr []"

fun should_unpack_args :: "'a nest \<Rightarrow> bool" where
  "should_unpack_args (Tup ts) = True"
| "should_unpack_args _ = False"

text \<open>
  \<open>predicate(*nested_args)\<close> or \<open>predicate(nested_args)\<close>: the user function takes
  its positional arguments as a list.
\<close>

fun call_unpacked :: "('a nest list \<Rightarrow> 'r) \<Rightarrow> 'a nest \<Rightarrow> 'r" where
  "call_unpacked f (Tup ts) = f ts"
| "call_unpacked f n = f [n]"

text \<open>
  \<open>tf_predicate(*args)\<close> of \<open>FilterDataset.__init__\<close>. \<open>ops.convert_to_tensor\<close> is not in
  src/ and is the parameter \<open>convert_to_tensor\<close>.
\<close>

definition tf_predicate ::
  "('r \<Rightarrow> dtype \<Rightarrow> error + tensor) \<Rightarrow> Dataset \<Rightarrow> (tensor nest list \<Rightarrow> 'r) \<Rightarrow> tensor list \<Rightarrow>
   error + tensor" where
  "tf_predicate convert_to_tensor input_dataset predicate args =
     (case set_shapes args (flatten (output_shapes input_dataset)) of
        Inl e \<Rightarrow> Inl e
      | Inr args' \<Rightarrow>
     (case pack_sequence_as (output_types input_dataset) args' of
        Inl e \<Rightarrow> Inl e
      | Inr nested_args \<Rightarrow>
     (let ret = (if should_unpack_args nested_args
                 then call_unpacked predicate nested_args
                 else predicate [nested_args])
      in (case convert_to_tensor ret DT_BOOL of
            Inl e \<Rightarrow> Inl e
          | Inr ret' \<Rightarrow>
              if \<not> (tensor_dtype ret' = DT_BOOL \<and>
                     is_compatible_with (tensor_shape ret') scalar)
              then Inl ValueError
              else Inr ret'))))"

text \<open>The \<open>*args\<close> that \<open>function.Defun\<close> passes: one tensor of unknown shape per type.\<close>

definition defun_args :: "dtype list \<Rightarrow> tensor list" where
  "defun_args types = map (\<lambda>t. \<lparr>tensor_dtype = t, tensor_shape = None\<rparr>) types"

text \<open>
  The spec's words for the compatibility of two schemas: identical nesting structure,
  identical type tags at every leaf, and each pair of shapes compatible.
\<close>

definition schema_compatible ::
  "dtype nest \<Rightarrow> tensor_shape nest \<Rightarrow> dtype nest \<Rightarrow> tensor_shape nest \<Rightarrow> bool" where
  "schema_compatible types1 shapes1 types2 shapes2 =
     (same_structure types1 types2 \<and> same_structure shapes1 shapes2 \<and>
      flatten types1 = flatten types2 \<and>
      list_all2 is_compatible_with (flatten shapes1) (flatten shapes2))"

text \<open>
  What the claim about \<open>from_generator\<close> calls agreeing with the declared type and with
  the declared shape, for the component at position \<open>k\<close>.
\<close>

definition dtype_matches ::
  "(dtype \<Rightarrow> 'n) \<Rightarrow> ('n, 'p) ndarray list \<Rightarrow> dtype list \<Rightarrow> nat \<Rightarrow> bool" where
  "dtype_matches np_of arrays types k = (array_dtype (arrays ! k) = np_of (types ! k))"

definition shape_matches :: "('n, 'p) ndarray list \<Rightarrow> tensor_shape list \<Rightarrow> nat \<Rightarrow> bool" where
  "shape_matches arrays shapes k =
     is_compatible_with (shapes ! k) (as_shape (array_shape (arrays ! k)))"

section \<open>Properties of nested structures\<close>

lemma same_structure_length:
  "same_structure a b \<Longrightarrow> length (flatten a) = length (flatten b)"
proof (induction a b rule: same_structure.induct)
  case (2 ts us)
  from "2.prems" have "list_all2 same_structure ts us" by simp
  then have "list_all2 (\<lambda>t u. length (flatten t) = length (flatten u)) ts us"
    using "2.IH" by (rule list.rel_mono_strong)
  then show ?case by (induction rule: list_all2_induct) auto
next
  case (3 fs gs)
  from "3.prems"
  have "list_all2 (\<lambda>f g. fst f = fst g \<and> same_structure (snd f) (snd g)) fs gs" by simp
  then have "list_all2 (\<lambda>f g. length (flatten (snd f)) = length (flatten (snd g))) fs gs"
    using "3.IH" by (rule list.rel_mono_strong) auto
  then show ?case by (induction rule: list_all2_induct) auto
qed auto



lemma same_structure_map: "same_structure (map_structure f s) s"
proof (induction s)
  case (Tup ts)
  then show ?case by (simp add: list.rel_map list_all2_same)
next
  case (Rec fs)
  then show ?case by (fastforce simp: list.rel_map list_all2_same)
qed simp

lemma flatten_map_structure: "flatten (map_structure f s) = map f (flatten s)"
proof (induction s)
  case (Tup ts)
  then show ?case by (simp add: map_concat comp_def cong: map_cong)
next
  case (Rec fs)
  then have "\<And>p. p \<in> set fs \<Longrightarrow> flatten (map_structure f (snd p)) = map f (flatten (snd p))"
    by (metis prod.collapse snds.intros)
  then show ?case by (simp add: map_concat comp_def cong: map_cong)
qed simp

lemma pack_from_take_drop:
  fixes s :: "'a nest" and ss :: "'a nest list" and fs :: "(string \<times> 'a nest) list"
    and flat :: "'b list"
  shows "length (flatten s) \<le> length flat \<Longrightarrow>
     flatten (fst (pack_from s flat)) = take (length (flatten s)) flat \<and>
     snd (pack_from s flat) = drop (length (flatten s)) flat \<and>
     same_structure s (fst (pack_from s flat))"
  and "length (concat (map flatten ss)) \<le> length flat \<Longrightarrow>
     concat (map flatten (fst (pack_list ss flat))) = take (length (concat (map flatten ss))) flat \<and>
     snd (pack_list ss flat) = drop (length (concat (map flatten ss))) flat \<and>
     list_all2 same_structure ss (fst (pack_list ss flat))"
  and "length (concat (map (\<lambda>p. flatten (snd p)) fs)) \<le> length flat \<Longrightarrow>
     concat (map (\<lambda>p. flatten (snd p)) (fst (pack_fields fs flat))) =
       take (length (concat (map (\<lambda>p. flatten (snd p)) fs))) flat \<and>
     snd (pack_fields fs flat) = drop (length (concat (map (\<lambda>p. flatten (snd p)) fs))) flat \<and>
     list_all2 (\<lambda>f g. fst f = fst g \<and> same_structure (snd f) (snd g)) fs (fst (pack_fields fs flat))"
proof (induction s flat and ss flat and fs flat rule: pack_from_pack_list_pack_fields.induct)
  case (1 x flat)
  then show ?case by (cases flat) auto
next
  case (2 ts flat)
  then show ?case by (auto split: prod.splits)
next
  case (3 fs flat)
  then show ?case by (auto split: prod.splits)
next
  case (4 flat)
  then show ?case by simp
next
  case (5 t ts flat)
  then show ?case
    by (auto split: prod.splits simp: take_add drop_take add.commute)
next
  case (6 flat)
  then show ?case by simp
next
  case (7 f fs flat)
  then show ?case by (auto split: prod.splits simp: take_add drop_take add.commute)
qed

lemma pack_sequence_as_Inr:
  "pack_sequence_as s flat = Inr t \<Longrightarrow> flatten t = flat \<and> same_structure s t"
  using pack_from_take_drop(1)[of s flat]
  by (auto simp: pack_sequence_as_def split: if_splits)

lemma pack_sequence_as_ok:
  "length flat = length (flatten s) \<Longrightarrow> \<exists>t. pack_sequence_as s flat = Inr t"
  by (simp add: pack_sequence_as_def)

lemma pack_from_map_flatten:
  fixes s :: "'a nest" and ss :: "'a nest list" and fs :: "(string \<times> 'a nest) list"
    and f :: "'a \<Rightarrow> 'b"
  shows "pack_from s (map f (flatten s) @ r) = (map_structure f s, r)"
  and "pack_list ss (map f (concat (map flatten ss)) @ r) = (map (map_structure f) ss, r)"
  and "pack_fields fs (map f (concat (map (\<lambda>p. flatten (snd p)) fs)) @ r)
       = (map (\<lambda>p. (fst p, map_structure f (snd p))) fs, r)"
  by (induction s "map f (flatten s) @ r" and ss "map f (concat (map flatten ss)) @ r"
      and fs "map f (concat (map (\<lambda>p. flatten (snd p)) fs)) @ r"
      arbitrary: r and r and r rule: pack_from_pack_list_pack_fields.induct)
     (auto split: prod.splits)

lemma pack_sequence_as_map_flatten:
  "pack_sequence_as s (map f (flatten s)) = Inr (map_structure f s)"
  using pack_from_map_flatten(1)[of s f "[]"] by (simp add: pack_sequence_as_def)


section \<open>Construction-time validation\<close>

lemma parse_args_cases:
  "parse_args args =
     (if length args = 1 then Inr (RangeDataset (build_tensor 0) (args ! 0) (build_tensor 1))
      else if length args = 2 then Inr (RangeDataset (args ! 0) (args ! 1) (build_tensor 1))
      else if length args = 3 then Inr (RangeDataset (args ! 0) (args ! 1) (args ! 2))
      else Inl ValueError)"
  by (cases args rule: parse_args.cases) simp_all

text \<open>
  C2, as the claim states it, fails: \<open>RangeDataset(0, 10, 0)\<close>, whose step is the constant
  0, is constructed without an error.
\<close>

theorem RangeDataset_zero_step_is_constructed:
  "(Dataset_range [Const 0, Const 10, Const 0] :: error + unit dataset)
     = Inr (RangeDataset (Const 0) (Const 10) (Const 0))
   \<and> constant_value (Const 0) = Some 0"
  by (simp add: Dataset_range_def)

text \<open>
  C2, amended: the construction of a Range node fails, with \<open>ValueError\<close>, exactly when
  it is given a number of arguments other than 1, 2 or 3; with three arguments the step
  is stored as it is given, whatever its value.
\<close>

theorem RangeDataset_validates_only_arity:
  "((\<exists>e. (Dataset_range args :: error + 'a dataset) = Inl e) = (length args \<notin> {1, 2, 3}))
   \<and> (((Dataset_range args :: error + 'a dataset) = Inl ValueError)
        = (length args \<notin> {1, 2, 3}))
   \<and> (Dataset_range [start, stop, step] :: error + 'a dataset)
       = Inr (RangeDataset start stop step)"
  unfolding Dataset_range_def by (simp add: parse_args_cases)

theorem RangeDataset_validates_only_arity_witness:
  "(\<exists>e. (Dataset_range [] :: error + unit dataset) = Inl e)
   \<and> (Dataset_range [Const 5, Const 1, Const 0] :: error + unit dataset)
       = Inr (RangeDataset (Const 5) (Const 1) (Const 0))"
  using RangeDataset_validates_only_arity[of "[]" "Const 5" "Const 1" "Const 0",
          where 'a = unit]
  by simp

text \<open>
  C3, as the claim states it, fails in its last part: with \<open>num_shards\<close> a placeholder,
  not statically known, and the constant index -1, \<open>shard\<close> raises at construction.
\<close>

theorem shard_unknown_num_shards_still_checks_index:
  "constant_value (Placeholder 0) = None
   \<and> shard (TensorSliceDataset ([] :: unit val nest list)) (Placeholder 0) (Const (- 1))
       = Inl ValueError"
  by (simp add: shard_def Let_def)

text \<open>
  C3, amended: \<open>shard\<close> raises \<open>ValueError\<close> at construction exactly when \<open>num_shards\<close> is
  statically known and below 1, or \<open>index\<close> is statically known and negative, or both are
  statically known and \<open>index >= num_shards\<close>. So for a statically known pair it raises
  iff \<open>num_shards < 1\<close> or \<open>index < 0\<close> or \<open>index >= num_shards\<close>, \<open>shard(3, 5)\<close> fails,
  and only the checks that read a value not statically known are left to the execution:
  with both values unknown the node is built.
\<close>

theorem shard_construction_check:
  "((shard self num_shards index = Inl ValueError) =
      ((\<exists>n. constant_value num_shards = Some n \<and> n < 1) \<or>
       (\<exists>i. constant_value index = Some i \<and> i < 0) \<or>
       (\<exists>n i. constant_value num_shards = Some n \<and> constant_value index = Some i \<and> i \<ge> n)))
   \<and> ((\<exists>e. shard self (Const n) (Const i) = Inl e) = (n < 1 \<or> i < 0 \<or> i \<ge> n))
   \<and> shard self (Const 3) (Const 5) = Inl ValueError
   \<and> (\<exists>s. shard self (Placeholder p) (Placeholder q) = Inr s)"
  unfolding shard_def enumerate_ds_def Dataset_range_def
  by (cases num_shards; cases index) (auto simp: Let_def)

theorem shard_construction_check_witness:
  "shard (TensorSliceDataset ([] :: unit val nest list)) (Const 3) (Const 5) = Inl ValueError
   \<and> (\<exists>e. shard (TensorSliceDataset ([] :: unit val nest list)) (Const 0) (Const 0) = Inl e)"
  using shard_construction_check[of "TensorSliceDataset ([] :: unit val nest list)"
          "Const 3" "Const 5" 0 0]
  by simp

section \<open>The graph that \<open>Dataset.map\<close> builds\<close>

text \<open>
  C10: \<open>map\<close> with an \<open>output_buffer_size\<close> is \<open>map\<close> without it followed by
  \<open>prefetch\<close> of that size; without a buffer size it builds a \<open>ParallelMapDataset\<close>
  exactly when \<open>num_threads\<close> or \<open>num_parallel_calls\<close> is given and a \<open>MapDataset\<close>
  otherwise, and the degree is \<open>num_threads\<close> whenever that is given.
\<close>

theorem Dataset_map_graph:
  "Dataset_map self f num_threads (Some b) num_parallel_calls
     = prefetch (Dataset_map self f num_threads None num_parallel_calls) b
   \<and> ((\<exists>n. Dataset_map self f num_threads None num_parallel_calls = ParallelMapDataset self f n)
        = (num_threads \<noteq> None \<or> num_parallel_calls \<noteq> None))
   \<and> ((Dataset_map self f num_threads None num_parallel_calls = MapDataset self f)
        = (num_threads = None \<and> num_parallel_calls = None))
   \<and> Dataset_map self f (Some t) None num_parallel_calls = ParallelMapDataset self f t
   \<and> Dataset_map self f None None (Some c) = ParallelMapDataset self f c"
  unfolding Dataset_map_def by (auto simp: Let_def split: option.splits)

theorem Dataset_map_graph_witness:
  "Dataset_map (TensorSliceDataset ([] :: unit val nest list)) second_of_pair
     (Some (Const 4)) (Some (Const 16)) (Some (Const 8))
   = PrefetchDataset
       (ParallelMapDataset (TensorSliceDataset []) second_of_pair (Const 4)) (Const 16)"
  using Dataset_map_graph[of "TensorSliceDataset ([] :: unit val nest list)" second_of_pair
          "Some (Const 4)" "Const 16" "Some (Const 8)" "Const 4" "Const 8"]
  by (simp add: prefetch_def)

section \<open>Schemas\<close>

lemma check_dtypes_iff:
  "length xs = length ys \<Longrightarrow> (check_dtypes xs ys = Inr ()) = (xs = ys)"
  by (induction xs ys rule: check_dtypes.induct) auto

lemma check_shapes_iff:
  "length xs = length ys \<Longrightarrow>
     (check_shapes xs ys = Inr ()) = list_all2 is_compatible_with xs ys"
  by (induction xs ys rule: check_shapes.induct) auto

text \<open>
  C6: \<open>make_initializer\<close> fails exactly when the schema of the dataset is not compatible
  with the schema the iterator declares (same nesting of types and of shapes, equal leaf
  types, compatible leaf shapes); when it succeeds the iterator is as it was, and the
  operation binds the dataset to the iterator's resource.
\<close>

theorem make_initializer_fails_iff_incompatible:
  "((\<exists>e. make_initializer self dataset = Inl e) =
      (\<not> schema_compatible (iterator_output_types self) (iterator_output_shapes self)
           (output_types dataset) (output_shapes dataset)))
   \<and> (\<forall>op self'. make_initializer self dataset = Inr (op, self') \<longrightarrow>
         self' = self \<and>
         op = Make_Iterator (make_dataset_resource dataset) (iterator_resource self))"
proof -
  let ?st = "same_structure (iterator_output_types self) (output_types dataset)"
  let ?ss = "same_structure (iterator_output_shapes self) (output_shapes dataset)"
  have a: "(check_dtypes (flatten (iterator_output_types self))
              (flatten (output_types dataset)) = Inr ())
         = (flatten (iterator_output_types self) = flatten (output_types dataset))" if ?st
    using that by (intro check_dtypes_iff same_structure_length)
  have b: "(check_shapes (flatten (iterator_output_shapes self))
              (flatten (output_shapes dataset)) = Inr ())
         = list_all2 is_compatible_with (flatten (iterator_output_shapes self))
             (flatten (output_shapes dataset))" if ?ss
    using that by (intro check_shapes_iff same_structure_length)
  show ?thesis
    using a b
    by (auto simp: make_initializer_def assert_same_structure_def schema_compatible_def
             split: sum.splits)
qed

theorem make_initializer_fails_iff_incompatible_witness:
  "make_initializer
     \<lparr>iterator_resource = 3,
      iterator_output_types = Tup [Leaf DT_INT64, Leaf DT_STRING],
      iterator_output_shapes = Tup [Leaf (Some [None]), Leaf None]\<rparr>
     \<lparr>output_types = Tup [Leaf DT_INT64, Leaf DT_STRING],
      output_shapes = Tup [Leaf (Some [Some 5]), Leaf (Some [])],
      make_dataset_resource = 7\<rparr>
   = Inr (Make_Iterator 7 3,
          \<lparr>iterator_resource = 3,
           iterator_output_types = Tup [Leaf DT_INT64, Leaf DT_STRING],
           iterator_output_shapes = Tup [Leaf (Some [None]), Leaf None]\<rparr>)
   \<and> (\<exists>e. make_initializer
          \<lparr>iterator_resource = 3,
           iterator_output_types = Tup [Leaf DT_INT64, Leaf DT_STRING],
           iterator_output_shapes = Tup [Leaf (Some [None]), Leaf None]\<rparr>
          \<lparr>output_types = Tup [Leaf DT_INT64, Leaf DT_STRING],
           output_shapes = Tup [Leaf (Some [Some 5, Some 2]), Leaf (Some [])],
           make_dataset_resource = 8\<rparr> = Inl e)"
  using make_initializer_fails_iff_incompatible
          [of "\<lparr>iterator_resource = 3,
                iterator_output_types = Tup [Leaf DT_INT64, Leaf DT_STRING],
                iterator_output_shapes = Tup [Leaf (Some [None]), Leaf None]\<rparr>"
              "\<lparr>output_types = Tup [Leaf DT_INT64, Leaf DT_STRING],
                output_shapes = Tup [Leaf (Some [Some 5, Some 2]), Leaf (Some [])],
                make_dataset_resource = 8\<rparr>"]
  by (simp add: schema_compatible_def make_initializer_def assert_same_structure_def
        dim_compatible_def)

section \<open>The schema of a concatenation\<close>









section \<open>The schema of a batch\<close>

text \<open>
  C8, as the claim states it, fails for a leaf of unknown rank, the unconstrained shape
  that \<open>from_generator\<close> and \<open>Iterator.from_structure\<close> give to a component declared
  without a shape: the batch has that same leaf, with no dimension in front.
\<close>

theorem batch_of_unknown_rank_prepends_nothing:
  "batch_output_shapes
     (batch \<lparr>output_types = Leaf DT_INT64, output_shapes = Leaf None,
             make_dataset_resource = 1\<rparr> 32)
   = Inr (Leaf None)
   \<and> batch_output_shapes
       (batch \<lparr>output_types = Leaf DT_INT64, output_shapes = Leaf None,
               make_dataset_resource = 1\<rparr> 32)
     = Inr (output_shapes \<lparr>output_types = Leaf DT_INT64, output_shapes = Leaf None,
                           make_dataset_resource = 1\<rparr>)"
  by (simp add: batch_output_shapes_def batch_def pack_sequence_as_def)

text \<open>
  C8, amended: the shapes of a \<open>BatchDataset\<close> have the nesting of the input's shapes
  and its types are the input's types; each leaf of known rank is the input's leaf with
  one unknown dimension in front, and a leaf of unknown rank stays of unknown rank.
\<close>

theorem batch_output_schema:
  "batch_output_shapes (batch d n)
     = Inr (map_structure (\<lambda>s. case s of None \<Rightarrow> None | Some dims \<Rightarrow> Some (None # dims))
              (output_shapes d))
   \<and> same_structure
        (map_structure (\<lambda>s. case s of None \<Rightarrow> None | Some dims \<Rightarrow> Some (None # dims))
           (output_shapes d))
        (output_shapes d)
   \<and> flatten
        (map_structure (\<lambda>s. case s of None \<Rightarrow> None | Some dims \<Rightarrow> Some (None # dims))
           (output_shapes d))
       = map (\<lambda>s. case s of None \<Rightarrow> None | Some dims \<Rightarrow> Some (None # dims))
           (flatten (output_shapes d))
   \<and> batch_output_types (batch d n) = output_types d"
proof -
  have "(\<lambda>s. concatenate (vector None) s)
        = (\<lambda>s. case s of None \<Rightarrow> None | Some dims \<Rightarrow> Some (None # dims))"
    by (rule ext) (simp add: vector_def split: option.splits)
  then show ?thesis
    by (simp add: batch_output_shapes_def batch_output_types_def batch_def
          pack_sequence_as_map_flatten same_structure_map flatten_map_structure)
qed

theorem batch_output_schema_witness:
  "batch_output_shapes
     (batch \<lparr>output_types = Tup [Leaf DT_FLOAT, Leaf DT_INT64, Leaf DT_STRING],
             output_shapes = Tup [Leaf (Some [Some 28, Some 28]), Leaf (Some []), Leaf None],
             make_dataset_resource = 1\<rparr> 32)
   = Inr (Tup [Leaf (Some [None, Some 28, Some 28]), Leaf (Some [None]), Leaf None])
   \<and> batch_output_types
       (batch \<lparr>output_types = Tup [Leaf DT_FLOAT, Leaf DT_INT64, Leaf DT_STRING],
               output_shapes = Tup [Leaf (Some [Some 28, Some 28]), Leaf (Some []), Leaf None],
               make_dataset_resource = 1\<rparr> 32)
     = Tup [Leaf DT_FLOAT, Leaf DT_INT64, Leaf DT_STRING]"
  using batch_output_schema
          [of "\<lparr>output_types = Tup [Leaf DT_FLOAT, Leaf DT_INT64, Leaf DT_STRING],
                output_shapes = Tup [Leaf (Some [Some 28, Some 28]), Leaf (Some []), Leaf None],
                make_dataset_resource = 1\<rparr>" 32]
  by simp

section \<open>Sharding as enumerate, filter and project\<close>

lemma sequence_sum_map_Inr:
  "(\<And>x. x \<in> set xs \<Longrightarrow> f x = Inr (g x)) \<Longrightarrow> sequence_sum (map f xs) = Inr (map g xs)"
  by (induction xs) auto

lemma filter_elems_total:
  "(\<And>x. x \<in> set xs \<Longrightarrow> p x = Inr (Leaf (Bool (q x)))) \<Longrightarrow>
   filter_elems p xs = Inr (filter q xs)"
  by (induction xs) auto

lemma range_elems_from_0: "0 \<le> m \<Longrightarrow> range_elems 0 m 1 = map int [0..<nat m]"
  by (simp add: range_elems_def)

lemma zip_rows_pair:
  "zip_rows [rs, xs] = map (\<lambda>i. [rs ! i, xs ! i]) [0..<min (length rs) (length xs)]"
  by (simp add: zip_rows_def)

lemma elems_enumerate:
  assumes d: "elems env d = Inr xs" and len: "int (length xs) \<le> m"
  shows "elems env (ZipDataset (Tup [Leaf (RangeDataset (Const 0) (Const m) (Const 1)), Leaf d]))
         = Inr (map (\<lambda>i. Tup [Leaf (Int64 (int i)), xs ! i]) [0..<length xs])"
proof -
  from len have m: "0 \<le> m" by simp
  let ?rs = "map (\<lambda>i. Leaf (Int64 i)) (range_elems 0 m 1) :: 'a val nest list"
  have lrs: "length ?rs = nat m" using m by (simp add: range_elems_from_0)
  have nth_rs: "?rs ! i = Leaf (Int64 (int i))" if "i < length xs" for i
    using that len m by (simp add: range_elems_from_0)
  have min: "min (length ?rs) (length xs) = length xs" using len lrs by simp
  have rows: "zip_rows [?rs, xs] = map (\<lambda>i. [Leaf (Int64 (int i)), xs ! i]) [0..<length xs]"
    unfolding zip_rows_pair min using nth_rs by simp
  have cols: "sequence_sum (flatten (map_nest (elems env)
                (Tup [Leaf (RangeDataset (Const 0) (Const m) (Const 1)), Leaf d])))
              = Inr [?rs, xs]"
    using d by simp
  have pack: "(case pack_sequence_as (Tup [Leaf r, Leaf d]) [a, b] of
                 Inl e \<Rightarrow> Inl e | Inr packed \<Rightarrow> Inr (join_nest packed))
              = (Inr (Tup [a, b]) :: error + 'a val nest)" for r :: "'a dataset" and a b
    by (simp add: pack_sequence_as_def)
  have "elems env (ZipDataset (Tup [Leaf (RangeDataset (Const 0) (Const m) (Const 1)), Leaf d]))
        = sequence_sum
            (map (\<lambda>row. case pack_sequence_as
                     (Tup [Leaf (RangeDataset (Const 0) (Const m) (Const 1)), Leaf d]) row of
                          Inl e \<Rightarrow> Inl e
                        | Inr packed \<Rightarrow> Inr (join_nest packed))
               (zip_rows [?rs, xs]))"
    unfolding elems.simps(3) cols by simp
  also have "\<dots> = Inr (map (\<lambda>i. Tup [Leaf (Int64 (int i)), xs ! i]) [0..<length xs])"
    unfolding rows map_map comp_def pack
    by (rule sequence_sum_map_Inr) simp
  finally show ?thesis .
qed

lemma enumerate_nth: "List.enumerate 0 xs = map (\<lambda>k. (k, xs ! k)) [0..<length xs]"
  by (rule nth_equalityI) (simp_all add: nth_enumerate_eq)

lemma shard_spec_nth:
  "shard_spec n i xs = map (\<lambda>k. xs ! k) (filter (\<lambda>k. int k mod n = i) [0..<length xs])"
  by (simp add: shard_spec_def enumerate_nth filter_map comp_def)

text \<open>
  C4: the node that \<open>shard\<close> builds is the map, over the filter, over the zip of
  \<open>range(0, max_value)\<close> with the dataset; and when the graph runs with
  \<open>num_shards >= 1\<close> over an upstream of at most \<open>max_value\<close> elements (every position
  is then an int64 of the range), it yields what the spec's words give: the upstream
  enumerated from 0, kept where \<open>position mod num_shards = index\<close>, without the positions.
\<close>

theorem shard_is_enumerate_filter_project:
  assumes built: "shard self num_shards index = Inr s"
    and upstream: "elems env self = Inr xs"
    and valid: "1 \<le> eval_tensor env num_shards"
    and bound: "int (length xs) \<le> max_value"
  shows "s = Dataset_map
               (Dataset_filter
                  (Dataset_zip
                     (Tup [Leaf (RangeDataset (Const 0) (Const max_value) (Const 1)), Leaf self]))
                  (filter_fn num_shards index))
               second_of_pair None None None
         \<and> elems env s
             = Inr (shard_spec (eval_tensor env num_shards) (eval_tensor env index) xs)"
proof -
  let ?n = "eval_tensor env num_shards" and ?i = "eval_tensor env index"
  let ?en = "ZipDataset (Tup [Leaf (RangeDataset (Const 0) (Const max_value) (Const 1)),
                              Leaf self])"
  let ?zipped = "map (\<lambda>k. Tup [Leaf (Int64 (int k)), xs ! k]) [0..<length xs]"
  from built have s: "s = MapDataset (FilterDataset ?en (filter_fn num_shards index))
                            second_of_pair"
    by (auto simp: shard_def enumerate_ds_def Dataset_range_def Dataset_zip_def
          Dataset_filter_def Dataset_map_def build_tensor_def Let_def split: if_splits)
  have en: "elems env ?en = Inr ?zipped"
    using upstream bound by (rule elems_enumerate)
  from valid have n0: "?n \<noteq> 0" by simp
  have "filter_elems (filter_fn num_shards index env) ?zipped
        = Inr (filter (\<lambda>e. case e of Tup [Leaf (Int64 p), x] \<Rightarrow> p mod ?n = ?i | _ \<Rightarrow> False)
                 ?zipped)"
    by (rule filter_elems_total) (auto simp: n0)
  also have "filter (\<lambda>e. case e of Tup [Leaf (Int64 p), x] \<Rightarrow> p mod ?n = ?i | _ \<Rightarrow> False)
               ?zipped
             = map (\<lambda>k. Tup [Leaf (Int64 (int k)), xs ! k])
                 (filter (\<lambda>k. int k mod ?n = ?i) [0..<length xs])"
    by (simp add: filter_map comp_def)
  finally have fl: "elems env (FilterDataset ?en (filter_fn num_shards index))
        = Inr (map (\<lambda>k. Tup [Leaf (Int64 (int k)), xs ! k])
                 (filter (\<lambda>k. int k mod ?n = ?i) [0..<length xs]))"
    using en by simp
  have "sequence_sum (map (second_of_pair env)
           (map (\<lambda>k. Tup [Leaf (Int64 (int k)), xs ! k])
              (filter (\<lambda>k. int k mod ?n = ?i) [0..<length xs])))
        = Inr (map (\<lambda>k. xs ! k) (filter (\<lambda>k. int k mod ?n = ?i) [0..<length xs]))"
    unfolding map_map comp_def by (rule sequence_sum_map_Inr) simp
  then have "elems env s = Inr (shard_spec ?n ?i xs)"
    using fl by (simp add: s shard_spec_nth)
  then show ?thesis
    by (simp add: s Dataset_map_def Dataset_filter_def Dataset_zip_def)
qed

theorem shard_is_enumerate_filter_project_witness:
  "elems (\<lambda>p. 0)
     (MapDataset
        (FilterDataset
           (ZipDataset
              (Tup [Leaf (RangeDataset (Const 0) (Const max_value) (Const 1)),
                    Leaf (TensorSliceDataset
                            [Leaf (Opaque ''a''), Leaf (Opaque ''b''), Leaf (Opaque ''c''),
                             Leaf (Opaque ''d''), Leaf (Opaque ''e'')])]))
           (filter_fn (Const 3) (Const 1)))
        second_of_pair)
   = Inr [Leaf (Opaque ''b''), Leaf (Opaque ''e'')]"
proof -
  let ?d = "TensorSliceDataset
              [Leaf (Opaque ''a''), Leaf (Opaque ''b''), Leaf (Opaque ''c''),
               Leaf (Opaque ''d''), Leaf (Opaque ''e'')]"
  let ?s = "MapDataset
        (FilterDataset
           (ZipDataset
              (Tup [Leaf (RangeDataset (Const 0) (Const max_value) (Const 1)), Leaf ?d]))
           (filter_fn (Const 3) (Const 1)))
        second_of_pair"
  have built: "shard ?d (Const 3) (Const 1) = Inr ?s"
    by (simp add: shard_def enumerate_ds_def Dataset_range_def Dataset_zip_def
          Dataset_filter_def Dataset_map_def build_tensor_def Let_def)
  have upstream: "elems (\<lambda>p. 0) ?d
     = Inr [Leaf (Opaque ''a''), Leaf (Opaque ''b''), Leaf (Opaque ''c''),
            Leaf (Opaque ''d''), Leaf (Opaque ''e'')]"
    by simp
  have valid: "1 \<le> eval_tensor (\<lambda>p. 0) (Const 3)" by simp
  have bound: "int (length [Leaf (Opaque ''a''), Leaf (Opaque ''b''), Leaf (Opaque ''c''),
            Leaf (Opaque ''d''), Leaf (Opaque ''e'') :: string val nest]) \<le> max_value"
    by (simp add: max_value_def)
  have spec: "shard_spec 3 1 [Leaf (Opaque ''a''), Leaf (Opaque ''b''), Leaf (Opaque ''c''),
            Leaf (Opaque ''d''), Leaf (Opaque ''e'') :: string val nest]
      = [Leaf (Opaque ''b''), Leaf (Opaque ''e'')]"
    by (simp add: shard_spec_def enumerate_eq_zip upt_rec)
  show ?thesis
    by (rule shard_is_enumerate_filter_project[OF built upstream valid bound,
          THEN conjunct2, unfolded eval_tensor.simps spec])
qed

section \<open>The generator multiplexer\<close>

lemma flatten_up_to_length:
  fixes shallow :: "'a nest" and ts :: "'a nest list" and fs :: "(string \<times> 'a nest) list"
    and input :: "'b nest" and vs :: "'b nest list" and gs :: "(string \<times> 'b nest) list"
  shows "flatten_up_to shallow input = Inr parts \<Longrightarrow> length parts = length (flatten shallow)"
    and "length ts = length vs \<Longrightarrow> flatten_up_to_list ts vs = Inr parts \<Longrightarrow>
         length parts = length (concat (map flatten ts))"
    and "length fs = length gs \<Longrightarrow> flatten_up_to_fields fs gs = Inr parts \<Longrightarrow>
         length parts = length (concat (map (\<lambda>p. flatten (snd p)) fs))"
proof (induction shallow input and ts vs and fs gs arbitrary: parts and parts and parts
       rule: flatten_up_to_flatten_up_to_list_flatten_up_to_fields.induct)
  case (2 ts vs)
  then show ?case by (simp split: if_splits)
next
  case (5 fs gs)
  then show ?case by (simp split: if_splits)
next
  case (8 t ts v vs)
  from "8.prems"(2) obtain xs ys where xs: "flatten_up_to t v = Inr xs"
    and ys: "flatten_up_to_list ts vs = Inr ys" and p: "parts = xs @ ys"
    by (auto split: sum.splits)
  from "8.IH"(1)[OF xs] have "length xs = length (flatten t)" .
  moreover from "8.IH"(2)[OF xs _ ys] "8.prems"(1)
  have "length ys = length (concat (map flatten ts))" by simp
  ultimately show ?case using p by simp
next
  case (10 f fs g gs)
  from "10.prems"(2) obtain xs ys where xs: "flatten_up_to (snd f) (snd g) = Inr xs"
    and ys: "flatten_up_to_fields fs gs = Inr ys" and p: "parts = xs @ ys"
    by (auto split: sum.splits)
  from "10.IH"(1)[OF xs] have "length xs = length (flatten (snd f))" .
  moreover from "10.IH"(2)[OF xs _ ys] "10.prems"(1)
  have "length ys = length (concat (map (\<lambda>p. flatten (snd p)) fs))" by simp
  ultimately show ?case using p by simp
qed simp_all

lemma from_generator_closure:
  assumes "from_generator np_of conv g types shapes_arg = Inr c"
  shows "the_generator c = g" "declared_types c = types" "flattened_types c = flatten types"
    "as_numpy_dtype c = np_of" "convert c = conv"
    "length (flattened_shapes c) = length (flatten types)"
proof -
  from assms obtain shapes where
    sh: "(case shapes_arg of None \<Rightarrow> Inr (map_structure (\<lambda>_. None) types)
          | Some shapes \<Rightarrow> map_structure_up_to types as_shape_nest shapes) = Inr shapes"
    and c: "c = \<lparr>the_generator = g, declared_types = types, declared_shapes = shapes,
               flattened_types = flatten types, flattened_shapes = flatten shapes,
               as_numpy_dtype = np_of, convert = conv\<rparr>"
    unfolding from_generator_def by (simp split: sum.splits)
  from c show "the_generator c = g" "declared_types c = types"
    "flattened_types c = flatten types" "as_numpy_dtype c = np_of" "convert c = conv"
    by simp_all
  have "length (flatten shapes) = length (flatten types)"
  proof (cases shapes_arg)
    case None
    with sh show ?thesis by (auto simp: flatten_map_structure)
  next
    case (Some given)
    with sh obtain results where "pack_sequence_as types results = Inr shapes"
      by (auto simp: map_structure_up_to_def split: sum.splits)
    then show ?thesis
      using pack_sequence_as_Inr[of types results shapes]
      by (auto simp: pack_sequence_as_def split: if_splits)
  qed
  with c show "length (flattened_shapes c) = length (flatten types)" by simp
qed

lemma check_components_ok:
  "length ts = length rs \<Longrightarrow> length ss = length rs \<Longrightarrow>
   (\<And>k. k < length rs \<Longrightarrow> dtype_matches np_of rs ts k \<and> shape_matches rs ss k) \<Longrightarrow>
   check_components np_of rs ts ss = Inr ()"
proof (induction np_of rs ts ss rule: check_components.induct)
  case (1 np_of ret_array rs expected_dtype ts expected_shape ss)
  from "1.prems"(3)[of 0] have h: "array_dtype ret_array = np_of expected_dtype"
    "is_compatible_with expected_shape (as_shape (array_shape ret_array))"
    by (simp_all add: dtype_matches_def shape_matches_def)
  have "check_components np_of rs ts ss = Inr ()"
  proof (rule "1.IH")
    show "\<not> array_dtype ret_array \<noteq> np_of expected_dtype" using h by simp
    show "\<not> \<not> is_compatible_with expected_shape (as_shape (array_shape ret_array))"
      using h by simp
    show "length ts = length rs" "length ss = length rs" using "1.prems" by simp_all
    fix k assume "k < length rs"
    with "1.prems"(3)[of "Suc k"]
    show "dtype_matches np_of rs ts k \<and> shape_matches rs ss k"
      by (simp add: dtype_matches_def shape_matches_def)
  qed
  with h show ?case by simp
qed auto

lemma check_components_first_failure:
  "length ts = length rs \<Longrightarrow> length ss = length rs \<Longrightarrow> k < length rs \<Longrightarrow>
   (\<And>j. j < k \<Longrightarrow> dtype_matches np_of rs ts j \<and> shape_matches rs ss j) \<Longrightarrow>
   \<not> (dtype_matches np_of rs ts k \<and> shape_matches rs ss k) \<Longrightarrow>
   check_components np_of rs ts ss
     = (if \<not> dtype_matches np_of rs ts k then Inl TypeError else Inl ValueError)"
proof (induction np_of rs ts ss arbitrary: k rule: check_components.induct)
  case (1 np_of ret_array rs expected_dtype ts expected_shape ss)
  show ?case
  proof (cases k)
    case 0
    with "1.prems"(5) show ?thesis
      by (auto simp: dtype_matches_def shape_matches_def)
  next
    case (Suc k')
    from "1.prems"(4)[of 0] Suc have h: "array_dtype ret_array = np_of expected_dtype"
      "is_compatible_with expected_shape (as_shape (array_shape ret_array))"
      by (simp_all add: dtype_matches_def shape_matches_def)
    have "check_components np_of rs ts ss
       = (if \<not> dtype_matches np_of rs ts k' then Inl TypeError else Inl ValueError)"
    proof (rule "1.IH")
      show "\<not> array_dtype ret_array \<noteq> np_of expected_dtype" using h by simp
      show "\<not> \<not> is_compatible_with expected_shape (as_shape (array_shape ret_array))"
        using h by simp
      show "length ts = length rs" "length ss = length rs" using "1.prems" by simp_all
      show "k' < length rs" using "1.prems"(3) Suc by simp
      show "\<not> (dtype_matches np_of rs ts k' \<and> shape_matches rs ss k')"
        using "1.prems"(5) Suc by (simp add: dtype_matches_def shape_matches_def)
      fix j assume "j < k'"
      with "1.prems"(4)[of "Suc j"] Suc
      show "dtype_matches np_of rs ts j \<and> shape_matches rs ss j"
        by (simp add: dtype_matches_def shape_matches_def)
    qed
    with h Suc show ?thesis by (simp add: dtype_matches_def)
  qed
qed auto

lemma generator_py_func_pulled:
  assumes closure: "from_generator np_of conv g types shapes_arg = Inr c"
    and pulled: "next_value g (fst (get_iterator g st i)) = Some (values, it')"
    and parts: "flatten_up_to types values = Inr parts"
  shows "fst (generator_py_func c st i)
         = (case check_components np_of (map conv parts) (flattened_types c)
                   (flattened_shapes c) of
              Inl e \<Rightarrow> Inl e
            | Inr u \<Rightarrow> Inr (map conv parts))"
proof -
  obtain it st1 where gi: "get_iterator g st i = (it, st1)"
    by (cases "get_iterator g st i")
  with pulled have nx: "next_value g it = Some (values, it')" by simp
  note cl = from_generator_closure[OF closure]
  show ?thesis
    unfolding generator_py_func_def cl(1,2,4,5) gi
    by (simp add: nx parts Let_def split: sum.splits)
qed

text \<open>
  C5: in any state of the registry, so at every pull, when the iterator of the id yields
  a value that flattens against the declared types, there is a declared type and a
  declared shape for each component, and the components are checked in order: if all
  agree the arrays are returned as converted, and \<open>generator_map_fn\<close> packs them like the
  declared types; the first component that disagrees decides the error, \<open>TypeError\<close> when
  its dtype differs and \<open>ValueError\<close>, another error, when its dtype agrees and its shape
  is incompatible.
\<close>

theorem generator_py_func_validates_every_element:
  assumes closure: "from_generator np_of conv g types shapes_arg = Inr c"
    and pulled: "next_value g (fst (get_iterator g generator_state iterator_id))
                 = Some (values, it')"
    and parts: "flatten_up_to types values = Inr parts"
  shows "length (flattened_types c) = length parts \<and>
         length (flattened_shapes c) = length parts \<and>
         ((\<forall>k<length parts.
             dtype_matches np_of (map conv parts) (flattened_types c) k \<and>
             shape_matches (map conv parts) (flattened_shapes c) k) \<longrightarrow>
          fst (generator_py_func c generator_state iterator_id) = Inr (map conv parts) \<and>
          (\<exists>t. fst (generator_map_fn c generator_state iterator_id) = Inr t \<and>
               flatten t = map conv parts \<and> same_structure types t)) \<and>
         (\<forall>k<length parts.
            (\<forall>j<k. dtype_matches np_of (map conv parts) (flattened_types c) j \<and>
                   shape_matches (map conv parts) (flattened_shapes c) j) \<and>
            \<not> dtype_matches np_of (map conv parts) (flattened_types c) k \<longrightarrow>
            fst (generator_py_func c generator_state iterator_id) = Inl TypeError) \<and>
         (\<forall>k<length parts.
            (\<forall>j<k. dtype_matches np_of (map conv parts) (flattened_types c) j \<and>
                   shape_matches (map conv parts) (flattened_shapes c) j) \<and>
            dtype_matches np_of (map conv parts) (flattened_types c) k \<and>
            \<not> shape_matches (map conv parts) (flattened_shapes c) k \<longrightarrow>
            fst (generator_py_func c generator_state iterator_id) = Inl ValueError)"
proof -
  let ?arrays = "map conv parts"
  let ?py = "fst (generator_py_func c generator_state iterator_id)"
  note cl = from_generator_closure[OF closure]
  note py = generator_py_func_pulled[OF closure pulled parts]
  have lp: "length parts = length (flatten types)"
    using parts by (rule flatten_up_to_length(1))
  have lt: "length (flattened_types c) = length ?arrays" using cl(3) lp by simp
  have ls: "length (flattened_shapes c) = length ?arrays" using cl(6) lp by simp
  have ok: "?py = Inr ?arrays \<and>
          (\<exists>t. fst (generator_map_fn c generator_state iterator_id) = Inr t \<and>
               flatten t = ?arrays \<and> same_structure types t)"
    if all: "\<forall>k<length parts.
             dtype_matches np_of ?arrays (flattened_types c) k \<and>
             shape_matches ?arrays (flattened_shapes c) k"
  proof -
    have "check_components np_of ?arrays (flattened_types c) (flattened_shapes c) = Inr ()"
      using lt ls all by (intro check_components_ok) simp_all
    with py have r: "?py = Inr ?arrays" by simp
    have "length ?arrays = length (flatten (declared_types c))" using cl(2) lp by simp
    then obtain t where t: "pack_sequence_as (declared_types c) ?arrays = Inr t"
      using pack_sequence_as_ok by blast
    from pack_sequence_as_Inr[OF t] cl(2)
    have "flatten t = ?arrays" "same_structure types t" by simp_all
    moreover from r t have "fst (generator_map_fn c generator_state iterator_id) = Inr t"
      by (cases "generator_py_func c generator_state iterator_id")
         (simp add: generator_map_fn_def)
    ultimately show ?thesis using r by blast
  qed
  have bad: "?py = (if \<not> dtype_matches np_of ?arrays (flattened_types c) k
                    then Inl TypeError else Inl ValueError)"
    if k: "k < length parts"
      and before: "\<forall>j<k. dtype_matches np_of ?arrays (flattened_types c) j \<and>
                          shape_matches ?arrays (flattened_shapes c) j"
      and here: "\<not> (dtype_matches np_of ?arrays (flattened_types c) k \<and>
                     shape_matches ?arrays (flattened_shapes c) k)" for k
  proof -
    have "check_components np_of ?arrays (flattened_types c) (flattened_shapes c)
          = (if \<not> dtype_matches np_of ?arrays (flattened_types c) k
             then Inl TypeError else Inl ValueError)"
      using lt ls k before here by (intro check_components_first_failure) simp_all
    with py show ?thesis by (simp split: if_splits)
  qed
  show ?thesis
  proof (intro conjI allI impI)
    show "length (flattened_types c) = length parts" using lt by simp
    show "length (flattened_shapes c) = length parts" using ls by simp
  next
    assume "\<forall>k<length parts.
             dtype_matches np_of ?arrays (flattened_types c) k \<and>
             shape_matches ?arrays (flattened_shapes c) k"
    from ok[OF this] show "?py = Inr ?arrays"
      and "\<exists>t. fst (generator_map_fn c generator_state iterator_id) = Inr t \<and>
               flatten t = ?arrays \<and> same_structure types t" by simp_all
  next
    fix k assume "k < length parts"
      and "(\<forall>j<k. dtype_matches np_of ?arrays (flattened_types c) j \<and>
                   shape_matches ?arrays (flattened_shapes c) j) \<and>
            \<not> dtype_matches np_of ?arrays (flattened_types c) k"
    then show "?py = Inl TypeError" using bad[of k] by simp
  next
    fix k assume "k < length parts"
      and "(\<forall>j<k. dtype_matches np_of ?arrays (flattened_types c) j \<and>
                   shape_matches ?arrays (flattened_shapes c) j) \<and>
            dtype_matches np_of ?arrays (flattened_types c) k \<and>
            \<not> shape_matches ?arrays (flattened_shapes c) k"
    then show "?py = Inl ValueError" using bad[of k] by simp
  qed
qed

abbreviation counting_generator :: "(nat, (dtype \<times> nat list) nest) generator" where
  "counting_generator \<equiv>
     \<lparr>new_iterator = 1,
      next_value =
        (\<lambda>i. Some (Tup [Leaf (DT_INT64, []), Leaf (DT_INT64, [i])], Suc i))\<rparr>"

abbreviation array_of :: "(dtype \<times> nat list) nest \<Rightarrow> (dtype, unit) ndarray" where
  "array_of \<equiv>
     (\<lambda>v. case v of
            Leaf (t, dims) \<Rightarrow> \<lparr>array_dtype = t, array_shape = dims, array_data = ()\<rparr>
          | _ \<Rightarrow> \<lparr>array_dtype = DT_DOUBLE, array_shape = [], array_data = ()\<rparr>)"

abbreviation counting_closure ::
  "(nat, dtype \<times> nat list, dtype, unit) from_generator_closure" where
  "counting_closure \<equiv>
     \<lparr>the_generator = counting_generator,
      declared_types = Tup [Leaf DT_INT64, Leaf DT_INT64],
      declared_shapes = Tup [Leaf (Some []), Leaf (Some [None])],
      flattened_types = [DT_INT64, DT_INT64],
      flattened_shapes = [Some [], Some [None]],
      as_numpy_dtype = (\<lambda>t. t),
      convert = array_of\<rparr>"

theorem generator_py_func_validates_every_element_witness:
  "fst (generator_py_func counting_closure GeneratorState_init 0)
     = Inr [\<lparr>array_dtype = DT_INT64, array_shape = [], array_data = ()\<rparr>,
            \<lparr>array_dtype = DT_INT64, array_shape = [1], array_data = ()\<rparr>]
   \<and> fst (generator_map_fn counting_closure GeneratorState_init 0)
     = Inr (Tup [Leaf \<lparr>array_dtype = DT_INT64, array_shape = [], array_data = ()\<rparr>,
                 Leaf \<lparr>array_dtype = DT_INT64, array_shape = [1], array_data = ()\<rparr>])"
proof -
  have closure: "from_generator (\<lambda>t. t) array_of counting_generator
          (Tup [Leaf DT_INT64, Leaf DT_INT64])
          (Some (Tup [Leaf (Some []), Leaf (Some [None])]))
        = Inr counting_closure"
    by (simp add: from_generator_def map_structure_up_to_def pack_sequence_as_def)
  have pulled: "next_value counting_generator
          (fst (get_iterator counting_generator GeneratorState_init 0))
        = Some (Tup [Leaf (DT_INT64, []), Leaf (DT_INT64, [1])], 2)"
    by (simp add: get_iterator_def GeneratorState_init_def)
  have parts: "flatten_up_to (Tup [Leaf DT_INT64, Leaf DT_INT64])
          (Tup [Leaf (DT_INT64, []), Leaf (DT_INT64, [1 :: nat])])
        = Inr [Leaf (DT_INT64, []), Leaf (DT_INT64, [1])]"
    by simp
  have all: "\<forall>k<length [Leaf (DT_INT64, []), Leaf (DT_INT64, [1 :: nat])].
        dtype_matches (\<lambda>t. t)
          (map array_of [Leaf (DT_INT64, []), Leaf (DT_INT64, [1])])
          (flattened_types counting_closure) k \<and>
        shape_matches (map array_of [Leaf (DT_INT64, []), Leaf (DT_INT64, [1])])
          (flattened_shapes counting_closure) k"
    by (simp add: All_less_Suc dtype_matches_def shape_matches_def as_shape_def
          dim_compatible_def)
  from generator_py_func_validates_every_element[OF closure pulled parts] all
  have py: "fst (generator_py_func counting_closure GeneratorState_init 0)
        = Inr (map array_of [Leaf (DT_INT64, []), Leaf (DT_INT64, [1])])"
    by blast
  then show ?thesis
    by (cases "generator_py_func counting_closure GeneratorState_init 0")
       (simp add: generator_map_fn_def pack_sequence_as_def)
qed

lemma flatten_up_to_errors:
  fixes shallow :: "'a nest" and ts :: "'a nest list" and fs :: "(string \<times> 'a nest) list"
    and input :: "'b nest" and vs :: "'b nest list" and gs :: "(string \<times> 'b nest) list"
  shows "flatten_up_to shallow input = Inl e \<Longrightarrow> e = TypeError \<or> e = ValueError"
    and "flatten_up_to_list ts vs = Inl e \<Longrightarrow> e = TypeError \<or> e = ValueError"
    and "flatten_up_to_fields fs gs = Inl e \<Longrightarrow> e = TypeError \<or> e = ValueError"
proof (induction shallow input and ts vs and fs gs
       rule: flatten_up_to_flatten_up_to_list_flatten_up_to_fields.induct)
  case (2 ts vs)
  then show ?case by (simp split: if_splits)
next
  case (5 fs gs)
  then show ?case by (simp split: if_splits)
next
  case (8 t ts v vs)
  show ?case
  proof (cases "flatten_up_to t v")
    case (Inl e')
    with "8.prems" "8.IH"(1) show ?thesis by simp
  next
    case (Inr xs)
    with "8.prems" "8.IH"(2)[OF Inr] show ?thesis by (simp split: sum.splits)
  qed
next
  case (10 f fs g gs)
  show ?case
  proof (cases "flatten_up_to (snd f) (snd g)")
    case (Inl e')
    with "10.prems" "10.IH"(1) show ?thesis by simp
  next
    case (Inr xs)
    with "10.prems" "10.IH"(2)[OF Inr] show ?thesis by (simp split: sum.splits)
  qed
qed simp_all

lemma check_components_errors:
  "check_components np_of rs ts ss = Inl e \<Longrightarrow> e = TypeError \<or> e = ValueError"
  by (induction np_of rs ts ss rule: check_components.induct) (simp_all split: if_splits)

lemma generator_py_func_absent_id:
  assumes "iterators st i = None"
  shows "fst (generator_py_func c st i) = fst (generator_py_func c GeneratorState_init i)"
    and "fst (generator_py_func c st i) \<noteq> Inl KeyError"
proof -
  let ?g = "the_generator c"
  have gi: "get_iterator ?g st i
            = (new_iterator ?g, st\<lparr>iterators := (iterators st)(i \<mapsto> new_iterator ?g)\<rparr>)"
    using assms by (simp add: get_iterator_def)
  have gi0: "get_iterator ?g GeneratorState_init i
            = (new_iterator ?g,
               GeneratorState_init\<lparr>iterators := (iterators GeneratorState_init)(i \<mapsto> new_iterator ?g)\<rparr>)"
    by (simp add: get_iterator_def GeneratorState_init_def)
  show "fst (generator_py_func c st i) = fst (generator_py_func c GeneratorState_init i)"
    unfolding generator_py_func_def gi gi0
    by (simp add: iterator_completed_def Let_def split: option.splits sum.splits)
  show "fst (generator_py_func c st i) \<noteq> Inl KeyError"
    unfolding generator_py_func_def gi
    by (auto simp: iterator_completed_def Let_def split: option.splits sum.splits
             dest: flatten_up_to_errors(1) check_components_errors)
qed

lemma generator_py_func_exhausted:
  assumes "fst (generator_py_func c st i) = Inl StopIteration"
  shows "iterators (snd (generator_py_func c st i)) i = None"
proof -
  obtain it st1 where gi: "get_iterator (the_generator c) st i = (it, st1)"
    by (cases "get_iterator (the_generator c) st i")
  then have present: "iterators st1 i = Some it"
    by (auto simp: get_iterator_def split: option.splits)
  show ?thesis
  proof (cases "next_value (the_generator c) it")
    case None
    with gi present show ?thesis
      by (simp add: generator_py_func_def iterator_completed_def)
  next
    case (Some r)
    obtain vals it' where r: "r = (vals, it')" by (cases r)
    from assms gi Some r have False
      by (auto simp: generator_py_func_def Let_def split: sum.splits
               dest: flatten_up_to_errors(1) check_components_errors)
    then show ?thesis ..
  qed
qed

text \<open>
  C1, amended: when a pull signals \<open>StopIteration\<close> the id is removed from the registry,
  and the next pull with that id does not fail with a missing-key error: the registry
  creates a fresh iterator for it, and the pull returns what the first pull of an id
  never used returns.
\<close>

theorem exhausted_id_restarts:
  assumes "fst (generator_py_func c generator_state iterator_id) = Inl StopIteration"
  shows "iterators (snd (generator_py_func c generator_state iterator_id)) iterator_id = None
     \<and> fst (generator_py_func c (snd (generator_py_func c generator_state iterator_id))
              iterator_id)
         = fst (generator_py_func c GeneratorState_init iterator_id)
     \<and> fst (generator_py_func c (snd (generator_py_func c generator_state iterator_id))
              iterator_id) \<noteq> Inl KeyError"
  using generator_py_func_exhausted[OF assms]
    generator_py_func_absent_id[of "snd (generator_py_func c generator_state iterator_id)"
      iterator_id c]
  by simp

abbreviation one_element_generator :: "(nat list, nat nest) generator" where
  "one_element_generator \<equiv>
     \<lparr>new_iterator = [7],
      next_value = (\<lambda>s. case s of [] \<Rightarrow> None | x # r \<Rightarrow> Some (Leaf x, r))\<rparr>"

abbreviation int64_scalar_of :: "nat nest \<Rightarrow> (dtype, nat nest) ndarray" where
  "int64_scalar_of \<equiv> (\<lambda>v. \<lparr>array_dtype = DT_INT64, array_shape = [], array_data = v\<rparr>)"

abbreviation one_element_closure ::
  "(nat list, nat, dtype, nat nest) from_generator_closure" where
  "one_element_closure \<equiv>
     \<lparr>the_generator = one_element_generator,
      declared_types = Leaf DT_INT64,
      declared_shapes = Leaf None,
      flattened_types = [DT_INT64],
      flattened_shapes = [None],
      as_numpy_dtype = (\<lambda>t. t),
      convert = int64_scalar_of\<rparr>"

text \<open>
  C1, as the claim states it, fails: a generator of one element is pulled under id 0 for
  its element, pulled again to \<open>StopIteration\<close>, which removes id 0 from the registry,
  and pulled a third time under id 0: that pull returns the element again, from a fresh
  iterator, and no error.
\<close>

theorem exhausted_id_is_pulled_again:
  "from_generator (\<lambda>t. t) int64_scalar_of one_element_generator (Leaf DT_INT64) None
     = Inr one_element_closure
   \<and> fst (generator_py_func one_element_closure GeneratorState_init 0)
       = Inr [\<lparr>array_dtype = DT_INT64, array_shape = [], array_data = Leaf 7\<rparr>]
   \<and> fst (generator_py_func one_element_closure
             (snd (generator_py_func one_element_closure GeneratorState_init 0)) 0)
       = Inl StopIteration
   \<and> iterators
        (snd (generator_py_func one_element_closure
                (snd (generator_py_func one_element_closure GeneratorState_init 0)) 0)) 0
       = None
   \<and> fst (generator_py_func one_element_closure
             (snd (generator_py_func one_element_closure
                     (snd (generator_py_func one_element_closure GeneratorState_init 0)) 0))
             0)
       = Inr [\<lparr>array_dtype = DT_INT64, array_shape = [], array_data = Leaf 7\<rparr>]"
  by (simp add: from_generator_def generator_py_func_def get_iterator_def
        iterator_completed_def GeneratorState_init_def as_shape_def Let_def)

theorem exhausted_id_restarts_witness:
  "iterators
     (snd (generator_py_func one_element_closure
             (snd (generator_py_func one_element_closure GeneratorState_init 0)) 0)) 0
     = None
   \<and> fst (generator_py_func one_element_closure
             (snd (generator_py_func one_element_closure
                     (snd (generator_py_func one_element_closure GeneratorState_init 0)) 0))
             0)
       = fst (generator_py_func one_element_closure GeneratorState_init 0)"
proof -
  have "fst (generator_py_func one_element_closure
             (snd (generator_py_func one_element_closure GeneratorState_init 0)) 0)
       = Inl StopIteration"
    by (simp add: generator_py_func_def get_iterator_def
        iterator_completed_def GeneratorState_init_def as_shape_def Let_def)
  from exhausted_id_restarts[OF this] show ?thesis by simp
qed

section \<open>The predicate of a filter\<close>

lemma set_shapes_defun_args:
  "length types = length shapes \<Longrightarrow>
   set_shapes (defun_args types) shapes
     = Inr (map2 (\<lambda>t s. \<lparr>tensor_dtype = t, tensor_shape = s\<rparr>) types shapes)"
proof (induction types arbitrary: shapes)
  case Nil
  then show ?case by (simp add: defun_args_def)
next
  case (Cons t types)
  then obtain s rest where s: "shapes = s # rest" by (cases shapes) auto
  with Cons.prems have "length types = length rest" by simp
  from Cons.IH[OF this] s show ?case by (simp add: defun_args_def)
qed

lemma call_predicate:
  "(if should_unpack_args n then call_unpacked p n else p [n]) = call_unpacked p n"
  by (cases n) simp_all

text \<open>
  C9, amended: for an input dataset whose shapes are nested like its types,
  \<open>tf_predicate\<close> calls the user predicate on the packed arguments and converts what it
  returns with \<open>convert_to_tensor(ret, dtype=bool)\<close>. An error of that conversion is
  passed on with its own kind. When the conversion gives a tensor, a tensor of type bool
  whose shape is compatible with the scalar shape is returned as it is, and any other
  tensor fails with \<open>ValueError\<close>.
\<close>

theorem tf_predicate_requires_scalar_boolean:
  assumes wf: "same_structure (output_types input_dataset) (output_shapes input_dataset)"
  shows "\<exists>nested_args.
           pack_sequence_as (output_types input_dataset)
             (map2 (\<lambda>t s. \<lparr>tensor_dtype = t, tensor_shape = s\<rparr>)
                (flatten (output_types input_dataset))
                (flatten (output_shapes input_dataset))) = Inr nested_args \<and>
           (\<forall>ret. convert_to_tensor (call_unpacked predicate nested_args) DT_BOOL = Inr ret \<longrightarrow>
              tf_predicate convert_to_tensor input_dataset predicate
                (defun_args (flatten (output_types input_dataset)))
              = (if tensor_dtype ret = DT_BOOL \<and> is_compatible_with (tensor_shape ret) scalar
                 then Inr ret else Inl ValueError)) \<and>
           (\<forall>e. convert_to_tensor (call_unpacked predicate nested_args) DT_BOOL = Inl e \<longrightarrow>
              tf_predicate convert_to_tensor input_dataset predicate
                (defun_args (flatten (output_types input_dataset))) = Inl e)"
proof -
  let ?types = "flatten (output_types input_dataset)"
  let ?shapes = "flatten (output_shapes input_dataset)"
  let ?args = "map2 (\<lambda>t s. \<lparr>tensor_dtype = t, tensor_shape = s\<rparr>) ?types ?shapes"
  have len: "length ?types = length ?shapes" using wf by (rule same_structure_length)
  have ss: "set_shapes (defun_args ?types) ?shapes = Inr ?args"
    using len by (rule set_shapes_defun_args)
  have "length ?args = length (flatten (output_types input_dataset))" using len by simp
  then obtain nested where nested: "pack_sequence_as (output_types input_dataset) ?args = Inr nested"
    using pack_sequence_as_ok by blast
  have "tf_predicate convert_to_tensor input_dataset predicate (defun_args ?types)
        = (case convert_to_tensor (call_unpacked predicate nested) DT_BOOL of
             Inl e \<Rightarrow> Inl e
           | Inr ret \<Rightarrow>
               if tensor_dtype ret = DT_BOOL \<and> is_compatible_with (tensor_shape ret) scalar
               then Inr ret else Inl ValueError)"
    unfolding tf_predicate_def ss
    by (simp add: nested call_predicate Let_def split: sum.splits)
  with nested show ?thesis by (intro exI[of _ nested]) simp
qed

abbreviation pair_input :: Dataset where
  "pair_input \<equiv>
     \<lparr>output_types = Tup [Leaf DT_INT64, Leaf DT_STRING],
      output_shapes = Tup [Leaf (Some []), Leaf (Some [None])],
      make_dataset_resource = 1\<rparr>"

theorem tf_predicate_requires_scalar_boolean_witness:
  "tf_predicate (\<lambda>ret dt. Inr ret) pair_input
     (\<lambda>args. \<lparr>tensor_dtype = DT_BOOL, tensor_shape = Some []\<rparr>)
     (defun_args [DT_INT64, DT_STRING])
   = Inr \<lparr>tensor_dtype = DT_BOOL, tensor_shape = Some []\<rparr>
   \<and> tf_predicate (\<lambda>ret dt. Inr ret) pair_input
     (\<lambda>args. \<lparr>tensor_dtype = DT_BOOL, tensor_shape = Some [Some 2]\<rparr>)
     (defun_args [DT_INT64, DT_STRING])
   = Inl ValueError"
  using tf_predicate_requires_scalar_boolean
          [of pair_input "\<lambda>ret dt. Inr ret"
              "\<lambda>args. \<lparr>tensor_dtype = DT_BOOL, tensor_shape = Some []\<rparr>"]
        tf_predicate_requires_scalar_boolean
          [of pair_input "\<lambda>ret dt. Inr ret"
              "\<lambda>args. \<lparr>tensor_dtype = DT_BOOL, tensor_shape = Some [Some 2]\<rparr>"]
  by (simp add: scalar_def pack_sequence_as_def)

text \<open>
  A conversion for the example below, on a returned value that is a Python integer
  (\<open>Inl\<close>) or a tensor (\<open>Inr\<close>): an integer is rejected with \<open>TypeError\<close>, a tensor is
  returned when it has the requested type and rejected with \<open>ValueError\<close> otherwise.
\<close>

abbreviation rejecting_conversion :: "int + tensor \<Rightarrow> dtype \<Rightarrow> error + tensor" where
  "rejecting_conversion \<equiv>
     (\<lambda>ret dt. case ret of
                 Inl i \<Rightarrow> Inl TypeError
               | Inr t \<Rightarrow> if tensor_dtype t = dt then Inr t else Inl ValueError)"

text \<open>
  C9, as the claim states it, fails: the value is converted before it is tested, and a
  value that the conversion rejects fails with the error of the conversion. With a
  conversion that rejects an integer with \<open>TypeError\<close>, a predicate that returns 1, which
  is not a scalar boolean, makes \<open>tf_predicate\<close> fail with \<open>TypeError\<close>.
\<close>

theorem tf_predicate_passes_conversion_error_on:
  "tf_predicate rejecting_conversion pair_input (\<lambda>args. Inl 1)
     (defun_args [DT_INT64, DT_STRING])
   = Inl TypeError"
  by (simp add: tf_predicate_def defun_args_def pack_sequence_as_def)

end
